theory Spec2Isabelle
  imports Main "HOL-Library.Word"
begin

section \<open>Data model\<close>

text \<open>
  The Go sources are \<^verbatim>\<open>simulator/drain.go\<close> (\<^verbatim>\<open>GetPodsToMove\<close>,
  \<^verbatim>\<open>drainabilityStatus\<close>), \<^verbatim>\<open>simulator/drainability/pdb.go\<close>
  (\<^verbatim>\<open>PdbRule.Drainable\<close>) and \<^verbatim>\<open>simulator/drainability/rules/pdb\<close>
  (\<^verbatim>\<open>Rule.Drainable\<close> on a drain context).

  A Go \<^verbatim>\<open>error\<close> is an interface value that may be nil: it is an
  \<open>error option\<close>, an error being its message. Pointers to pods, to the node and to
  the drain context are taken non-nil (a nil one makes the Go code panic on its first
  field access); a nil slice and an empty slice are both the empty list, except for
  \<^verbatim>\<open>DrainabilityRules\<close>, which the code compares with nil.
\<close>

type_synonym error = string

type_synonym Labels = "string \<rightharpoonup> string"

text \<open>
  The code reads three fields of a pod. A pod has more (annotations, owner references,
  its spec), which the rules of the chain, \<^verbatim>\<open>IsDaemonSetPod\<close> and the legacy
  function read: the functions below take any extension \<open>'p Pod_scheme\<close> of the
  record, so that a rule may depend on the rest of the pod.
\<close>

record Pod =
  Namespace :: string
  Name :: string
  Labels :: Labels

text \<open>
  \<^verbatim>\<open>labels.Selector\<close> is used through its method \<^verbatim>\<open>Matches\<close> only, so a
  selector is that method.
\<close>

type_synonym Selector = "Labels \<Rightarrow> bool"

text \<open>
  A budget: \<^verbatim>\<open>pdb.Namespace\<close>, \<^verbatim>\<open>pdb.Spec.Selector\<close> (the unparsed label
  selector, of a type \<open>'ls\<close> left open) and \<^verbatim>\<open>pdb.Status.DisruptionsAllowed\<close>,
  an \<^verbatim>\<open>int32\<close>.
\<close>

record 'ls PodDisruptionBudget =
  pdb_Namespace :: string
  Selector :: 'ls
  DisruptionsAllowed :: "32 word"

text \<open>
  Modelled from the spec: the reason codes of package \<^verbatim>\<open>utils/drain\<close>, which is
  not among the sources. The spec names \<open>UnexpectedError\<close>, \<open>NotEnoughPdb\<close> and the
  reasons of the legacy path; \<open>NoReason\<close> is the zero value of the Go enumeration.
\<close>

datatype BlockingPodReason =
    NoReason
  | ControllerNotFound
  | MinReplicasReached
  | NotReplicated
  | LocalStorageRequested
  | NotSafeToEvictAnnotation
  | UnmovableKubeSystemPod
  | NotEnoughPdb
  | UnexpectedError

text \<open>
  Modelled from the spec: \<^verbatim>\<open>drain.BlockingPod\<close>, the pod that blocks a node
  together with the reason code.
\<close>

record 'p BlockingPod =
  blocking_Pod :: "'p Pod_scheme"
  Reason :: BlockingPodReason

text \<open>
  Modelled from the spec: the three-valued outcome and the status of package
  \<^verbatim>\<open>drainability\<close> (file \<^verbatim>\<open>status.go\<close> is not among the sources), with the
  two constructors the rules call.
\<close>

datatype OutcomeType = UndefinedOutcome | DrainOk | BlockDrain

record Status =
  Outcome :: OutcomeType
  BlockingReason :: BlockingPodReason
  Error :: "error option"

definition NewUndefinedStatus :: Status where
  "NewUndefinedStatus =
     \<lparr>Outcome = UndefinedOutcome, BlockingReason = NoReason, Error = None\<rparr>"

definition NewBlockedStatus :: "BlockingPodReason \<Rightarrow> error option \<Rightarrow> Status" where
  "NewBlockedStatus reason err =
     \<lparr>Outcome = BlockDrain, BlockingReason = reason, Error = err\<rparr>"

text \<open>
  The interface \<^verbatim>\<open>drainability.Rule\<close> has the one method
  \<^verbatim>\<open>Drainable(pod) Status\<close>; a rule is that method, a function of the pod
  (the tracker of a \<^verbatim>\<open>PdbRule\<close> is read as one snapshot).
\<close>

type_synonym 'p Rule = "'p Pod_scheme \<Rightarrow> Status"

text \<open>
  \<^verbatim>\<open>pdb.RemainingPdbTracker\<close> is read through \<^verbatim>\<open>GetPdbs()\<close> only; a nil
  tracker is \<open>None\<close>.
\<close>

record 'ls RemainingPdbTracker =
  GetPdbs :: "'ls PodDisruptionBudget list"

record 'ls PdbRule =
  tracker :: "'ls RemainingPdbTracker option"

record 'ls DrainContext =
  Pdbs :: "'ls PodDisruptionBudget list"

section \<open>The PDB rule\<close>

text \<open>
  The loop of \<^verbatim>\<open>PdbRule.Drainable\<close> (pdb.go, lines 47 to 57) over the budgets
  that are left. \<open>LabelSelectorAsSelector\<close> is the function of the Kubernetes API
  library, a parameter here: \<open>Inl\<close> is its error, \<open>Inr\<close> the parsed selector. The
  error it returns is dropped by the code, which builds a new one with a fixed text.
\<close>

fun PdbRule_loop ::
  "('ls \<Rightarrow> error + Selector) \<Rightarrow> 'p Pod_scheme \<Rightarrow> 'ls PodDisruptionBudget list
   \<Rightarrow> Status" where
  "PdbRule_loop LabelSelectorAsSelector pod [] = NewUndefinedStatus"
| "PdbRule_loop LabelSelectorAsSelector pod (pdb # rest) =
     (case LabelSelectorAsSelector (Selector pdb) of
        Inl err \<Rightarrow>
          NewBlockedStatus UnexpectedError (Some ''failed to convert label selector'')
      | Inr selector \<Rightarrow>
          if Namespace pod = pdb_Namespace pdb \<and> selector (Labels pod)
             \<and> sint (DisruptionsAllowed pdb) < 1
          then NewBlockedStatus NotEnoughPdb
                 (Some (''not enough pod disruption budget to move ''
                        @ Namespace pod @ ''/'' @ Name pod))
          else PdbRule_loop LabelSelectorAsSelector pod rest)"

definition PdbRule_Drainable ::
  "('ls \<Rightarrow> error + Selector) \<Rightarrow> 'ls PdbRule \<Rightarrow> 'p Pod_scheme \<Rightarrow> Status" where
  "PdbRule_Drainable LabelSelectorAsSelector r pod =
     (case tracker r of
        None \<Rightarrow> NewUndefinedStatus
      | Some t \<Rightarrow> PdbRule_loop LabelSelectorAsSelector pod (GetPdbs t))"

text \<open>
  \<^verbatim>\<open>Rule.Drainable\<close> of package \<^verbatim>\<open>rules/pdb\<close> runs the same loop, line for
  line, over the budgets of the drain context.
\<close>

definition Rule_Drainable ::
  "('ls \<Rightarrow> error + Selector) \<Rightarrow> 'ls DrainContext \<Rightarrow> 'p Pod_scheme \<Rightarrow> Status" where
  "Rule_Drainable LabelSelectorAsSelector drainCtx pod =
     PdbRule_loop LabelSelectorAsSelector pod (Pdbs drainCtx)"

text \<open>
  The spec's vocabulary for the rule: a budget \<^emph>\<open>parses\<close> when its selector converts;
  it \<^emph>\<open>covers\<close> a pod when its namespace is the pod's and its (converted) selector
  matches the pod's labels. A budget whose selector does not convert covers no pod.
\<close>

definition parses :: "('ls \<Rightarrow> error + Selector) \<Rightarrow> 'ls PodDisruptionBudget \<Rightarrow> bool" where
  "parses LabelSelectorAsSelector pdb =
     (case LabelSelectorAsSelector (Selector pdb) of Inl err \<Rightarrow> False | Inr selector \<Rightarrow> True)"

definition covers ::
  "('ls \<Rightarrow> error + Selector) \<Rightarrow> 'ls PodDisruptionBudget \<Rightarrow> 'p Pod_scheme \<Rightarrow> bool" where
  "covers LabelSelectorAsSelector pdb pod =
     (case LabelSelectorAsSelector (Selector pdb) of
        Inl err \<Rightarrow> False
      | Inr selector \<Rightarrow> Namespace pod = pdb_Namespace pdb \<and> selector (Labels pod))"

section \<open>The rule chain\<close>

fun drainabilityStatus :: "'p Pod_scheme \<Rightarrow> 'p Rule list \<Rightarrow> Status" where
  "drainabilityStatus pod [] =
     \<lparr>Outcome = UndefinedOutcome, BlockingReason = NoReason, Error = None\<rparr>"
| "drainabilityStatus pod (f # dr) =
     (let d = f pod
      in if Outcome d \<noteq> UndefinedOutcome then d else drainabilityStatus pod dr)"

section \<open>The drain evaluator\<close>

record 'p PodInfo =
  Pod :: "'p Pod_scheme"

record 'p NodeInfo =
  Pods :: "'p PodInfo list"

text \<open>
  \<^verbatim>\<open>MinReplicaCount\<close> is a Go \<^verbatim>\<open>int\<close> (64 bits), which \<^verbatim>\<open>GetPodsToMove\<close>
  converts to \<^verbatim>\<open>int32\<close>. A nil \<^verbatim>\<open>DrainabilityRules\<close> is \<open>None\<close>.
\<close>

record 'p NodeDeleteOptions =
  SkipNodesWithSystemPods :: bool
  SkipNodesWithLocalStorage :: bool
  SkipNodesWithCustomControllerPods :: bool
  MinReplicaCount :: "64 word"
  DrainabilityRules :: "'p Rule list option"

text \<open>
  Lines 70 to 80: the chain of the delete options, or the default chain built on the
  tracker when the options carry none. \<^verbatim>\<open>drainability.DefaultRules\<close> is not among
  the sources and is a parameter.
\<close>

definition resolveRules ::
  "('ls RemainingPdbTracker option \<Rightarrow> 'p Rule list) \<Rightarrow> 'p NodeDeleteOptions
   \<Rightarrow> 'ls RemainingPdbTracker option \<Rightarrow> 'p Rule list" where
  "resolveRules DefaultRules deleteOptions remainingPdbTracker =
     (case DrainabilityRules deleteOptions of
        None \<Rightarrow> DefaultRules remainingPdbTracker
      | Some drainabilityRules \<Rightarrow> drainabilityRules)"

text \<open>
  The loop of lines 81 to 105 over the pods that are left, with the three slices it
  appends to. It ends in one of two ways: the early \<^verbatim>\<open>return\<close> of the
  \<^verbatim>\<open>BlockDrain\<close> case, which carries \<^verbatim>\<open>pods\<close> as it stands, or the end of the
  list. \<^verbatim>\<open>pod_util.IsDaemonSetPod\<close> is a parameter.
\<close>

datatype 'p LoopExit =
    Blocked "'p Pod_scheme list" "'p BlockingPod" "error option"
  | Finished "'p Pod_scheme list" "'p Pod_scheme list" "'p Pod_scheme list"

fun GetPodsToMove_loop ::
  "('p Pod_scheme \<Rightarrow> bool) \<Rightarrow> 'p Rule list \<Rightarrow> 'p PodInfo list
   \<Rightarrow> 'p Pod_scheme list \<Rightarrow> 'p Pod_scheme list \<Rightarrow> 'p Pod_scheme list
   \<Rightarrow> 'p LoopExit" where
  "GetPodsToMove_loop IsDaemonSetPod dr [] pods drainPods drainDS =
     Finished pods drainPods drainDS"
| "GetPodsToMove_loop IsDaemonSetPod dr (podInfo # rest) pods drainPods drainDS =
     (let pod = Pod podInfo;
          d = drainabilityStatus pod dr
      in case Outcome d of
           UndefinedOutcome \<Rightarrow>
             GetPodsToMove_loop IsDaemonSetPod dr rest (pods @ [Pod podInfo]) drainPods drainDS
         | DrainOk \<Rightarrow>
             if IsDaemonSetPod pod
             then GetPodsToMove_loop IsDaemonSetPod dr rest pods drainPods (drainDS @ [pod])
             else GetPodsToMove_loop IsDaemonSetPod dr rest pods (drainPods @ [pod]) drainDS
         | BlockDrain \<Rightarrow>
             Blocked pods \<lparr>blocking_Pod = pod, Reason = BlockingReason d\<rparr> (Error d))"

text \<open>
  \<^verbatim>\<open>GetPodsToMove\<close>, returning \<^verbatim>\<open>(pods, daemonSetPods, blockingPod, err)\<close>.
  The legacy function \<^verbatim>\<open>drain.GetPodsForDeletionOnNodeDrain\<close> is not among the
  sources and is a parameter, like the types of the listers and of the timestamp. On
  the early return \<^verbatim>\<open>daemonSetPods\<close> is still the nil slice.
\<close>

definition GetPodsToMove ::
  "('ls RemainingPdbTracker option \<Rightarrow> 'p Rule list) \<Rightarrow> ('p Pod_scheme \<Rightarrow> bool)
   \<Rightarrow> ('p Pod_scheme list \<Rightarrow> 'ls PodDisruptionBudget list \<Rightarrow> bool \<Rightarrow> bool \<Rightarrow> bool
        \<Rightarrow> 'listers \<Rightarrow> 32 word \<Rightarrow> 'time
        \<Rightarrow> 'p Pod_scheme list \<times> 'p Pod_scheme list \<times> 'p BlockingPod option
           \<times> error option)
   \<Rightarrow> 'p NodeInfo \<Rightarrow> 'p NodeDeleteOptions \<Rightarrow> 'listers
   \<Rightarrow> 'ls RemainingPdbTracker option \<Rightarrow> 'time
   \<Rightarrow> 'p Pod_scheme list \<times> 'p Pod_scheme list \<times> 'p BlockingPod option
      \<times> error option" where
  "GetPodsToMove DefaultRules IsDaemonSetPod GetPodsForDeletionOnNodeDrain
     nodeInfo deleteOptions listers remainingPdbTracker timestamp =
     (let drainabilityRules = resolveRules DefaultRules deleteOptions remainingPdbTracker
      in case GetPodsToMove_loop IsDaemonSetPod drainabilityRules (Pods nodeInfo) [] [] [] of
           Blocked pods blockingPod err \<Rightarrow> (pods, [], Some blockingPod, err)
         | Finished pods drainPods drainDS \<Rightarrow>
             (let pdbs = (case remainingPdbTracker of
                            None \<Rightarrow> []
                          | Some t \<Rightarrow> GetPdbs t)
              in case GetPodsForDeletionOnNodeDrain pods pdbs
                        (SkipNodesWithSystemPods deleteOptions)
                        (SkipNodesWithLocalStorage deleteOptions)
                        (SkipNodesWithCustomControllerPods deleteOptions)
                        listers
                        (ucast (MinReplicaCount deleteOptions))
                        timestamp of
                   (legacyPods, legacyDS, blockingPod, err) \<Rightarrow>
                     (let pods' = legacyPods @ drainPods;
                          daemonSetPods = legacyDS @ drainDS
                      in if err \<noteq> None
                         then (pods', daemonSetPods, blockingPod, err)
                         else (pods', daemonSetPods, None, None))))"

subsection \<open>The calls of rules\<close>

text \<open>
  To state which rules are evaluated on which pods, the chain and the loop are written
  once more with a log of the calls \<^verbatim>\<open>f.Drainable(pod)\<close> in the order they are
  made: a call is the position of the pod in \<^verbatim>\<open>nodeInfo.Pods\<close> and the position
  of the rule in the chain. The logged functions compute what the plain ones do
  (\<open>drainabilityStatus_log_fst\<close>, \<open>GetPodsToMove_loop_log_fst\<close> below).
\<close>

type_synonym Call = "nat \<times> nat"

fun drainabilityStatus_log ::
  "'p Pod_scheme \<Rightarrow> 'p Rule list \<Rightarrow> nat \<Rightarrow> Status \<times> nat list" where
  "drainabilityStatus_log pod [] i =
     (\<lparr>Outcome = UndefinedOutcome, BlockingReason = NoReason, Error = None\<rparr>, [])"
| "drainabilityStatus_log pod (f # dr) i =
     (let d = f pod
      in if Outcome d \<noteq> UndefinedOutcome then (d, [i])
         else (let r = drainabilityStatus_log pod dr (Suc i) in (fst r, i # snd r)))"

fun GetPodsToMove_loop_log ::
  "('p Pod_scheme \<Rightarrow> bool) \<Rightarrow> 'p Rule list \<Rightarrow> 'p PodInfo list \<Rightarrow> nat
   \<Rightarrow> 'p Pod_scheme list \<Rightarrow> 'p Pod_scheme list \<Rightarrow> 'p Pod_scheme list
   \<Rightarrow> 'p LoopExit \<times> Call list" where
  "GetPodsToMove_loop_log IsDaemonSetPod dr [] j pods drainPods drainDS =
     (Finished pods drainPods drainDS, [])"
| "GetPodsToMove_loop_log IsDaemonSetPod dr (podInfo # rest) j pods drainPods drainDS =
     (let pod = Pod podInfo;
          logged = drainabilityStatus_log pod dr 0;
          d = fst logged;
          calls = map (Pair j) (snd logged)
      in case Outcome d of
           UndefinedOutcome \<Rightarrow>
             (let r = GetPodsToMove_loop_log IsDaemonSetPod dr rest (Suc j)
                        (pods @ [Pod podInfo]) drainPods drainDS
              in (fst r, calls @ snd r))
         | DrainOk \<Rightarrow>
             if IsDaemonSetPod pod
             then (let r = GetPodsToMove_loop_log IsDaemonSetPod dr rest (Suc j)
                             pods drainPods (drainDS @ [pod])
                   in (fst r, calls @ snd r))
             else (let r = GetPodsToMove_loop_log IsDaemonSetPod dr rest (Suc j)
                             pods (drainPods @ [pod]) drainDS
                   in (fst r, calls @ snd r))
         | BlockDrain \<Rightarrow>
             (Blocked pods \<lparr>blocking_Pod = pod, Reason = BlockingReason d\<rparr> (Error d),
              calls))"

text \<open>
  The calls of rules that \<^verbatim>\<open>GetPodsToMove\<close> makes: those of its loop (the legacy
  function is given no rule).
\<close>

definition GetPodsToMove_calls ::
  "('ls RemainingPdbTracker option \<Rightarrow> 'p Rule list) \<Rightarrow> ('p Pod_scheme \<Rightarrow> bool)
   \<Rightarrow> 'p NodeInfo \<Rightarrow> 'p NodeDeleteOptions \<Rightarrow> 'ls RemainingPdbTracker option
   \<Rightarrow> Call list" where
  "GetPodsToMove_calls DefaultRules IsDaemonSetPod nodeInfo deleteOptions remainingPdbTracker =
     snd (GetPodsToMove_loop_log IsDaemonSetPod
            (resolveRules DefaultRules deleteOptions remainingPdbTracker)
            (Pods nodeInfo) 0 [] [] [])"

text \<open>
  The order of calls: an earlier pod first, and on one pod an earlier rule first.
\<close>

definition call_before :: "Call \<Rightarrow> Call \<Rightarrow> bool" where
  "call_before c c' = (fst c < fst c' \<or> (fst c = fst c' \<and> snd c < snd c'))"

text \<open>
  What the source says of the calls, without the log: on a pod the chain calls its
  rules in order up to the first one whose outcome is not Undefined (all of them when
  there is none); the loop goes through the pods in order up to the first one for
  which the chain returns Block (all of them when there is none).
\<close>

definition rules_called :: "'p Pod_scheme \<Rightarrow> 'p Rule list \<Rightarrow> nat" where
  "rules_called pod dr =
     min (length dr) (Suc (length (takeWhile (\<lambda>f. Outcome (f pod) = UndefinedOutcome) dr)))"

definition pods_evaluated :: "'p Rule list \<Rightarrow> 'p PodInfo list \<Rightarrow> nat" where
  "pods_evaluated dr podInfos =
     min (length podInfos)
       (Suc (length (takeWhile
          (\<lambda>podInfo. Outcome (drainabilityStatus (Pod podInfo) dr) \<noteq> BlockDrain) podInfos)))"

section \<open>Example inputs\<close>

text \<open>
  A small selector language for the examples: a list of required label pairs, which
  does not convert when a key is empty (an empty key is not a valid label name).
\<close>

definition example_parser :: "(string \<times> string) list \<Rightarrow> error + Selector" where
  "example_parser ls =
     (if list_ex (\<lambda>(k, v). k = []) ls then Inl ''name part must be non-empty''
      else Inr (\<lambda>labels. list_all (\<lambda>(k, v). labels k = Some v) ls))"

definition pod_a :: Pod where
  "pod_a = \<lparr>Namespace = ''default'', Name = ''a'', Labels = [''app'' \<mapsto> ''web'']\<rparr>"

definition pod_b :: Pod where
  "pod_b = \<lparr>Namespace = ''default'', Name = ''b'', Labels = [''app'' \<mapsto> ''db'']\<rparr>"

definition budget_exhausted :: "(string \<times> string) list PodDisruptionBudget" where
  "budget_exhausted =
     \<lparr>pdb_Namespace = ''default'', Selector = [(''app'', ''web'')], DisruptionsAllowed = 0\<rparr>"

definition budget_open :: "(string \<times> string) list PodDisruptionBudget" where
  "budget_open =
     \<lparr>pdb_Namespace = ''default'', Selector = [(''app'', ''web'')], DisruptionsAllowed = 1\<rparr>"

definition budget_malformed :: "(string \<times> string) list PodDisruptionBudget" where
  "budget_malformed =
     \<lparr>pdb_Namespace = ''other'', Selector = [('''', ''x'')], DisruptionsAllowed = 1\<rparr>"

text \<open>
  A node's pods, a chain of two rules (one that lets the named pods drain, then the
  PDB rule on one exhausted budget), and two stand-ins for the legacy function: one
  that finds every pending pod movable, one that blames the first pending pod.
\<close>

definition pod_c :: Pod where
  "pod_c = \<lparr>Namespace = ''default'', Name = ''c'', Labels = [''app'' \<mapsto> ''api'']\<rparr>"

definition pod_ds :: Pod where
  "pod_ds = \<lparr>Namespace = ''kube-system'', Name = ''ds'', Labels = Map.empty\<rparr>"

definition example_allow :: "string list \<Rightarrow> unit Rule" where
  "example_allow names pod =
     (if Name pod \<in> set names
      then \<lparr>Outcome = DrainOk, BlockingReason = NoReason, Error = None\<rparr>
      else NewUndefinedStatus)"

definition example_rules :: "unit Rule list" where
  "example_rules =
     [example_allow [''ds'', ''b''],
      PdbRule_Drainable example_parser \<lparr>tracker = Some \<lparr>GetPdbs = [budget_exhausted]\<rparr>\<rparr>]"

definition example_DefaultRules ::
  "(string \<times> string) list RemainingPdbTracker option \<Rightarrow> unit Rule list" where
  "example_DefaultRules t = [PdbRule_Drainable example_parser \<lparr>tracker = t\<rparr>]"

definition example_IsDaemonSetPod :: "Pod \<Rightarrow> bool" where
  "example_IsDaemonSetPod pod = (Name pod = ''ds'')"

definition example_options :: "unit Rule list option \<Rightarrow> unit NodeDeleteOptions" where
  "example_options rules =
     \<lparr>SkipNodesWithSystemPods = True, SkipNodesWithLocalStorage = True,
      SkipNodesWithCustomControllerPods = False, MinReplicaCount = 0,
      DrainabilityRules = rules\<rparr>"

definition legacy_all_movable ::
  "Pod list \<Rightarrow> (string \<times> string) list PodDisruptionBudget list \<Rightarrow> bool \<Rightarrow> bool \<Rightarrow> bool
   \<Rightarrow> unit \<Rightarrow> 32 word \<Rightarrow> nat
   \<Rightarrow> Pod list \<times> Pod list \<times> unit BlockingPod option \<times> error option" where
  "legacy_all_movable pods pdbs skipSystem skipLocal skipCustom listers minReplica now =
     (pods, [], None, None)"

definition legacy_not_replicated ::
  "Pod list \<Rightarrow> (string \<times> string) list PodDisruptionBudget list \<Rightarrow> bool \<Rightarrow> bool \<Rightarrow> bool
   \<Rightarrow> unit \<Rightarrow> 32 word \<Rightarrow> nat
   \<Rightarrow> Pod list \<times> Pod list \<times> unit BlockingPod option \<times> error option" where
  "legacy_not_replicated pods pdbs skipSystem skipLocal skipCustom listers minReplica now =
     (case pods of
        [] \<Rightarrow> ([], [], None, None)
      | pod # rest \<Rightarrow>
          ([], [], Some \<lparr>blocking_Pod = pod, Reason = NotReplicated\<rparr>,
           Some (Name pod @ '' is not replicated'')))"


section \<open>Evaluating the examples\<close>

lemmas example_defs =
  example_parser_def pod_a_def pod_b_def budget_exhausted_def budget_open_def
  budget_malformed_def parses_def covers_def NewBlockedStatus_def NewUndefinedStatus_def

lemmas example_node_defs =
  pod_c_def pod_ds_def example_allow_def example_rules_def example_DefaultRules_def
  example_IsDaemonSetPod_def example_options_def legacy_all_movable_def
  legacy_not_replicated_def resolveRules_def PdbRule_Drainable_def PdbRule_loop.simps

section \<open>Properties of the rule chain\<close>

lemma drainabilityStatus_all_undefined:
  "\<forall>g \<in> set dr. Outcome (g pod) = UndefinedOutcome \<Longrightarrow>
   drainabilityStatus pod dr =
     \<lparr>Outcome = UndefinedOutcome, BlockingReason = NoReason, Error = None\<rparr>"
  by (induction dr) simp_all

lemma drainabilityStatus_first:
  "\<forall>g \<in> set pre. Outcome (g pod) = UndefinedOutcome \<Longrightarrow>
   Outcome (f pod) \<noteq> UndefinedOutcome \<Longrightarrow>
   drainabilityStatus pod (pre @ f # post) = f pod"
  by (induction pre) simp_all

text \<open>
  Claim C4. The chain returns the status of the first rule, in list order, whose
  outcome is not Undefined, and the Undefined status (no reason, no error) when every
  rule returns Undefined.
\<close>

theorem drainabilityStatus_first_decisive:
  "(\<forall>pre f post.
      R = pre @ f # post
      \<and> (\<forall>g \<in> set pre. Outcome (g p) = UndefinedOutcome)
      \<and> Outcome (f p) \<noteq> UndefinedOutcome
      \<longrightarrow> drainabilityStatus p R = f p)
   \<and> ((\<forall>g \<in> set R. Outcome (g p) = UndefinedOutcome)
      \<longrightarrow> drainabilityStatus p R =
            \<lparr>Outcome = UndefinedOutcome, BlockingReason = NoReason, Error = None\<rparr>)"
  using drainabilityStatus_first drainabilityStatus_all_undefined by blast

theorem drainabilityStatus_first_decisive_witness:
  "Outcome (example_allow [''ds'', ''b''] pod_a) = UndefinedOutcome
   \<and> Outcome (PdbRule_Drainable example_parser
                 \<lparr>tracker = Some \<lparr>GetPdbs = [budget_exhausted]\<rparr>\<rparr> pod_a) \<noteq> UndefinedOutcome
   \<and> drainabilityStatus pod_a
        ([example_allow [''ds'', ''b'']]
         @ PdbRule_Drainable example_parser \<lparr>tracker = Some \<lparr>GetPdbs = [budget_exhausted]\<rparr>\<rparr>
         # [example_allow [''a'']])
       = NewBlockedStatus NotEnoughPdb
           (Some ''not enough pod disruption budget to move default/a'')
   \<and> list_all (\<lambda>g. Outcome (g pod_c) = UndefinedOutcome) example_rules
   \<and> drainabilityStatus pod_c example_rules
       = \<lparr>Outcome = UndefinedOutcome, BlockingReason = NoReason, Error = None\<rparr>"
proof -
  let ?pdb = "PdbRule_Drainable example_parser \<lparr>tracker = Some \<lparr>GetPdbs = [budget_exhausted]\<rparr>\<rparr>"
  have 1: "\<forall>g \<in> set [example_allow [''ds'', ''b'']]. Outcome (g pod_a) = UndefinedOutcome"
    by (simp add: example_node_defs example_defs)
  have 2: "?pdb pod_a = NewBlockedStatus NotEnoughPdb
             (Some ''not enough pod disruption budget to move default/a'')"
    by (simp add: example_node_defs example_defs)
  then have 3: "Outcome (?pdb pod_a) \<noteq> UndefinedOutcome"
    by (simp add: NewBlockedStatus_def)
  have 4: "\<forall>g \<in> set example_rules. Outcome (g pod_c) = UndefinedOutcome"
    by (simp add: example_node_defs example_defs)
  from drainabilityStatus_first_decisive
         [of "[example_allow [''ds'', ''b'']] @ ?pdb # [example_allow [''a'']]" pod_a] 1 3
  have 5: "drainabilityStatus pod_a
             ([example_allow [''ds'', ''b'']] @ ?pdb # [example_allow [''a'']]) = ?pdb pod_a"
    by blast
  from drainabilityStatus_first_decisive [of example_rules pod_c] 4
  have 6: "drainabilityStatus pod_c example_rules
             = \<lparr>Outcome = UndefinedOutcome, BlockingReason = NoReason, Error = None\<rparr>"
    by blast
  from 1 have "Outcome (example_allow [''ds'', ''b''] pod_a) = UndefinedOutcome" by simp
  with 3 4 5 6 show ?thesis unfolding 2 list_all_iff by blast
qed

section \<open>Properties of the PDB rule\<close>

text \<open>
  Claim C8. With no tracker configured (a nil tracker), \<^verbatim>\<open>PdbRule.Drainable\<close>
  returns the Undefined status for every pod, whatever the selector parser does.
\<close>

theorem PdbRule_nil_tracker_undefined:
  "PdbRule_Drainable LabelSelectorAsSelector \<lparr>tracker = None\<rparr> pod = NewUndefinedStatus
   \<and> Outcome (PdbRule_Drainable LabelSelectorAsSelector \<lparr>tracker = None\<rparr> pod)
       = UndefinedOutcome"
  by (simp add: PdbRule_Drainable_def NewUndefinedStatus_def)

text \<open>
  The rule of package \<^verbatim>\<open>rules/pdb\<close> on a drain context is the PDB rule on a
  tracker that returns the context's budgets, so what follows holds for both.
\<close>

lemma Rule_Drainable_PdbRule:
  "Rule_Drainable LabelSelectorAsSelector drainCtx pod =
   PdbRule_Drainable LabelSelectorAsSelector
     \<lparr>tracker = Some \<lparr>GetPdbs = Pdbs drainCtx\<rparr>\<rparr> pod"
  by (simp add: Rule_Drainable_def PdbRule_Drainable_def)

lemma PdbRule_loop_skip:
  "parses asSel c \<Longrightarrow> \<not> (covers asSel c pod \<and> sint (DisruptionsAllowed c) < 1) \<Longrightarrow>
   PdbRule_loop asSel pod (c # rest) = PdbRule_loop asSel pod rest"
  by (auto simp: parses_def covers_def split: sum.splits)

lemma PdbRule_loop_parse_failure:
  "\<not> parses asSel c \<Longrightarrow>
   PdbRule_loop asSel pod (c # rest) =
     NewBlockedStatus UnexpectedError (Some ''failed to convert label selector'')"
  by (auto simp: parses_def split: sum.splits)

lemma PdbRule_loop_no_headroom:
  "covers asSel c pod \<Longrightarrow> sint (DisruptionsAllowed c) < 1 \<Longrightarrow>
   PdbRule_loop asSel pod (c # rest) =
     NewBlockedStatus NotEnoughPdb
       (Some (''not enough pod disruption budget to move '' @ Namespace pod @ ''/'' @ Name pod))"
  by (auto simp: covers_def split: sum.splits)

declare PdbRule_loop.simps(2) [simp del]

lemma PdbRule_loop_outcome:
  "Outcome (PdbRule_loop asSel pod pdbs) =
     (if \<exists>c \<in> set pdbs. \<not> parses asSel c \<or> (covers asSel c pod \<and> sint (DisruptionsAllowed c) < 1)
      then BlockDrain else UndefinedOutcome)"
proof (induction pdbs)
  case Nil
  then show ?case by (simp add: NewUndefinedStatus_def)
next
  case (Cons c pdbs)
  consider "\<not> parses asSel c"
    | "parses asSel c" "covers asSel c pod \<and> sint (DisruptionsAllowed c) < 1"
    | "parses asSel c" "\<not> (covers asSel c pod \<and> sint (DisruptionsAllowed c) < 1)"
    by blast
  then show ?case
  proof cases
    case 1
    then show ?thesis by (simp add: PdbRule_loop_parse_failure NewBlockedStatus_def)
  next
    case 2
    then show ?thesis by (simp add: PdbRule_loop_no_headroom NewBlockedStatus_def)
  next
    case 3
    then show ?thesis using Cons.IH by (simp add: PdbRule_loop_skip)
  qed
qed

lemma PdbRule_loop_first_unparsable:
  "\<forall>c \<in> set pre. \<not> (covers asSel c pod \<and> sint (DisruptionsAllowed c) < 1) \<Longrightarrow>
   \<not> parses asSel b \<Longrightarrow>
   PdbRule_loop asSel pod (pre @ b # post) =
     NewBlockedStatus UnexpectedError (Some ''failed to convert label selector'')"
proof (induction pre)
  case Nil
  then show ?case by (simp add: PdbRule_loop_parse_failure)
next
  case (Cons c pre)
  show ?case
  proof (cases "parses asSel c")
    case True
    with Cons show ?thesis by (simp add: PdbRule_loop_skip)
  next
    case False
    then show ?thesis by (simp add: PdbRule_loop_parse_failure)
  qed
qed

lemma PdbRule_loop_first_exhausted:
  "\<forall>c \<in> set pre. parses asSel c \<Longrightarrow>
   covers asSel b pod \<Longrightarrow> sint (DisruptionsAllowed b) < 1 \<Longrightarrow>
   PdbRule_loop asSel pod (pre @ b # post) =
     NewBlockedStatus NotEnoughPdb
       (Some (''not enough pod disruption budget to move '' @ Namespace pod @ ''/'' @ Name pod))"
proof (induction pre)
  case Nil
  then show ?case by (simp add: PdbRule_loop_no_headroom)
next
  case (Cons c pre)
  show ?case
  proof (cases "covers asSel c pod \<and> sint (DisruptionsAllowed c) < 1")
    case True
    then show ?thesis by (simp add: PdbRule_loop_no_headroom)
  next
    case False
    with Cons show ?thesis by (simp add: PdbRule_loop_skip)
  qed
qed

lemma PdbRule_loop_all_benign:
  "\<forall>c \<in> set pdbs. parses asSel c \<and> \<not> (covers asSel c pod \<and> sint (DisruptionsAllowed c) < 1) \<Longrightarrow>
   PdbRule_loop asSel pod pdbs = NewUndefinedStatus"
  by (induction pdbs) (simp_all add: PdbRule_loop_skip)

lemma PdbRule_loop_reason:
  "BlockingReason (PdbRule_loop asSel pod pdbs) = NotEnoughPdb \<Longrightarrow>
   \<exists>c \<in> set pdbs. covers asSel c pod \<and> sint (DisruptionsAllowed c) < 1"
proof (induction pdbs)
  case Nil
  then show ?case by (simp add: NewUndefinedStatus_def)
next
  case (Cons c pdbs)
  show ?case
  proof (cases "parses asSel c")
    case False
    with Cons.prems show ?thesis by (simp add: PdbRule_loop_parse_failure NewBlockedStatus_def)
  next
    case True
    show ?thesis
    proof (cases "covers asSel c pod \<and> sint (DisruptionsAllowed c) < 1")
      case True
      then show ?thesis by simp
    next
      case False
      with \<open>parses asSel c\<close> Cons show ?thesis by (simp add: PdbRule_loop_skip)
    qed
  qed
qed

text \<open>
  Claim C5, as stated, fails: a budget with an unparsable selector that comes before
  the exhausted budget covering the pod stops the loop first, with
  \<open>UnexpectedError\<close>.
\<close>

theorem PdbRule_exhausted_budget_counterexample:
  "covers example_parser budget_exhausted pod_a
   \<and> sint (DisruptionsAllowed budget_exhausted) < 1
   \<and> PdbRule_Drainable example_parser
        \<lparr>tracker = Some \<lparr>GetPdbs = [budget_malformed, budget_exhausted]\<rparr>\<rparr> pod_a
       = NewBlockedStatus UnexpectedError (Some ''failed to convert label selector'')
   \<and> BlockingReason
        (PdbRule_Drainable example_parser
           \<lparr>tracker = Some \<lparr>GetPdbs = [budget_malformed, budget_exhausted]\<rparr>\<rparr> pod_a)
       \<noteq> NotEnoughPdb"
  by (simp add: PdbRule_Drainable_def example_defs PdbRule_loop.simps)

text \<open>
  Claim C5, amended. If some budget of the snapshot covers the pod and has fewer than
  one disruption left, and no budget before it has a selector that fails to parse,
  \<^verbatim>\<open>PdbRule.Drainable\<close> returns Block with reason \<open>NotEnoughPdb\<close> and an error
  that names the pod by namespace and name. Whatever comes before that budget, the
  outcome is Block.
\<close>

theorem PdbRule_exhausted_budget_blocks:
  assumes "tracker r = Some t"
    and "GetPdbs t = pre @ b # post"
    and "covers LabelSelectorAsSelector b pod"
    and "sint (DisruptionsAllowed b) < 1"
  shows "Outcome (PdbRule_Drainable LabelSelectorAsSelector r pod) = BlockDrain
         \<and> ((\<forall>c \<in> set pre. parses LabelSelectorAsSelector c) \<longrightarrow>
              PdbRule_Drainable LabelSelectorAsSelector r pod =
                NewBlockedStatus NotEnoughPdb
                  (Some (''not enough pod disruption budget to move ''
                         @ Namespace pod @ ''/'' @ Name pod)))"
  using assms
  by (simp add: PdbRule_Drainable_def PdbRule_loop_outcome PdbRule_loop_first_exhausted)

theorem PdbRule_exhausted_budget_blocks_witness:
  "covers example_parser budget_exhausted pod_a
   \<and> sint (DisruptionsAllowed budget_exhausted) < 1
   \<and> parses example_parser budget_open
   \<and> PdbRule_Drainable example_parser
        \<lparr>tracker = Some \<lparr>GetPdbs = [budget_open, budget_exhausted, budget_malformed]\<rparr>\<rparr> pod_a
       = NewBlockedStatus NotEnoughPdb
           (Some ''not enough pod disruption budget to move default/a'')"
  using PdbRule_exhausted_budget_blocks
          [of "\<lparr>tracker = Some \<lparr>GetPdbs = [budget_open, budget_exhausted, budget_malformed]\<rparr>\<rparr>"
              "\<lparr>GetPdbs = [budget_open, budget_exhausted, budget_malformed]\<rparr>"
              "[budget_open]" budget_exhausted "[budget_malformed]" example_parser pod_a]
  by (simp add: example_defs)




text \<open>
  Claim C7, as stated, fails: a pod that no budget covers is blocked when some budget
  has an unparsable selector.
\<close>

theorem PdbRule_uncovered_pod_counterexample:
  "\<not> covers example_parser budget_malformed pod_b
   \<and> Outcome (PdbRule_Drainable example_parser
                 \<lparr>tracker = Some \<lparr>GetPdbs = [budget_malformed]\<rparr>\<rparr> pod_b) = BlockDrain"
  by (simp add: PdbRule_Drainable_def example_defs PdbRule_loop.simps)

text \<open>
  Claim C7, amended. For a pod covered by no budget, or only by budgets with at least
  one disruption left, \<^verbatim>\<open>PdbRule.Drainable\<close> never returns \<open>NotEnoughPdb\<close>; it
  returns the Undefined status when every selector parses, and a Block it returns is
  an \<open>UnexpectedError\<close> for a selector that does not parse.
\<close>

theorem PdbRule_vetoes_only_exhausted:
  assumes "tracker r = Some t"
    and "\<forall>b \<in> set (GetPdbs t).
           covers LabelSelectorAsSelector b pod \<longrightarrow> 1 \<le> sint (DisruptionsAllowed b)"
  shows "BlockingReason (PdbRule_Drainable LabelSelectorAsSelector r pod) \<noteq> NotEnoughPdb
         \<and> ((\<forall>b \<in> set (GetPdbs t). parses LabelSelectorAsSelector b) \<longrightarrow>
              PdbRule_Drainable LabelSelectorAsSelector r pod = NewUndefinedStatus)
         \<and> (Outcome (PdbRule_Drainable LabelSelectorAsSelector r pod) = BlockDrain \<longrightarrow>
              (\<exists>b \<in> set (GetPdbs t). \<not> parses LabelSelectorAsSelector b)
              \<and> BlockingReason (PdbRule_Drainable LabelSelectorAsSelector r pod)
                  = UnexpectedError)"
proof -
  let ?d = "PdbRule_loop LabelSelectorAsSelector pod (GetPdbs t)"
  have d: "PdbRule_Drainable LabelSelectorAsSelector r pod = ?d"
    using assms(1) by (simp add: PdbRule_Drainable_def)
  have no: "\<forall>c \<in> set (GetPdbs t).
              \<not> (covers LabelSelectorAsSelector c pod \<and> sint (DisruptionsAllowed c) < 1)"
    using assms(2) by fastforce
  have 1: "BlockingReason ?d \<noteq> NotEnoughPdb"
    using PdbRule_loop_reason [of LabelSelectorAsSelector pod "GetPdbs t"] no by blast
  have 2: "(\<forall>b \<in> set (GetPdbs t). parses LabelSelectorAsSelector b) \<longrightarrow> ?d = NewUndefinedStatus"
    using no by (simp add: PdbRule_loop_all_benign)
  have 3: "Outcome ?d = BlockDrain \<longrightarrow>
             (\<exists>b \<in> set (GetPdbs t). \<not> parses LabelSelectorAsSelector b)
             \<and> BlockingReason ?d = UnexpectedError"
  proof
    assume "Outcome ?d = BlockDrain"
    then have ex: "\<exists>b \<in> set (GetPdbs t). \<not> parses LabelSelectorAsSelector b"
      using no by (auto simp: PdbRule_loop_outcome split: if_splits)
    then obtain pre b post where
      "GetPdbs t = pre @ b # post" "\<not> parses LabelSelectorAsSelector b"
      by (meson split_list)
    then have "?d = NewBlockedStatus UnexpectedError (Some ''failed to convert label selector'')"
      using no PdbRule_loop_first_unparsable [of pre LabelSelectorAsSelector pod b post]
      by simp
    with ex show "(\<exists>b \<in> set (GetPdbs t). \<not> parses LabelSelectorAsSelector b)
                  \<and> BlockingReason ?d = UnexpectedError"
      by (simp add: NewBlockedStatus_def)
  qed
  from 1 2 3 show ?thesis unfolding d by blast
qed

theorem PdbRule_vetoes_only_exhausted_witness:
  "\<not> covers example_parser budget_open pod_b
   \<and> \<not> covers example_parser budget_exhausted pod_b
   \<and> parses example_parser budget_open
   \<and> parses example_parser budget_exhausted
   \<and> PdbRule_Drainable example_parser
        \<lparr>tracker = Some \<lparr>GetPdbs = [budget_open, budget_exhausted]\<rparr>\<rparr> pod_b
       = NewUndefinedStatus
   \<and> covers example_parser budget_open pod_a
   \<and> 1 \<le> sint (DisruptionsAllowed budget_open)
   \<and> PdbRule_Drainable example_parser
        \<lparr>tracker = Some \<lparr>GetPdbs = [budget_open]\<rparr>\<rparr> pod_a
       = NewUndefinedStatus"
  using PdbRule_vetoes_only_exhausted
          [of "\<lparr>tracker = Some \<lparr>GetPdbs = [budget_open, budget_exhausted]\<rparr>\<rparr>"
              "\<lparr>GetPdbs = [budget_open, budget_exhausted]\<rparr>" example_parser pod_b]
        PdbRule_vetoes_only_exhausted
          [of "\<lparr>tracker = Some \<lparr>GetPdbs = [budget_open]\<rparr>\<rparr>"
              "\<lparr>GetPdbs = [budget_open]\<rparr>" example_parser pod_a]
  by (simp add: example_defs)

section \<open>Properties of the drain evaluator\<close>

lemma example_outcomes:
  "Outcome (drainabilityStatus pod_c example_rules) = UndefinedOutcome"
  "Outcome (drainabilityStatus pod_b example_rules) = DrainOk"
  "Outcome (drainabilityStatus pod_ds example_rules) = DrainOk"
  "drainabilityStatus pod_a example_rules =
     NewBlockedStatus NotEnoughPdb (Some ''not enough pod disruption budget to move default/a'')"
  by (simp_all add: example_node_defs example_defs)

lemma example_no_block:
  "\<forall>p \<in> set (Pods \<lparr>Pods = [\<lparr>Pod = pod_c\<rparr>, \<lparr>Pod = pod_b\<rparr>, \<lparr>Pod = pod_ds\<rparr>]\<rparr>).
     Outcome (drainabilityStatus (Pod p)
       (resolveRules example_DefaultRules (example_options (Some example_rules)) None))
     \<noteq> BlockDrain"
  by (simp add: resolveRules_def example_options_def example_outcomes)

lemma example_pending:
  "filter (\<lambda>p. Outcome (drainabilityStatus p
             (resolveRules example_DefaultRules (example_options (Some example_rules)) None))
           = UndefinedOutcome)
     (map Pod (Pods \<lparr>Pods = [\<lparr>Pod = pod_c\<rparr>, \<lparr>Pod = pod_b\<rparr>, \<lparr>Pod = pod_ds\<rparr>]\<rparr>))
   = [pod_c]"
  by (simp add: resolveRules_def example_options_def example_outcomes)

lemma example_chain_movable:
  "filter (\<lambda>p. Outcome (drainabilityStatus p
             (resolveRules example_DefaultRules (example_options (Some example_rules)) None))
           = DrainOk \<and> \<not> example_IsDaemonSetPod p)
     (map Pod (Pods \<lparr>Pods = [\<lparr>Pod = pod_c\<rparr>, \<lparr>Pod = pod_b\<rparr>, \<lparr>Pod = pod_ds\<rparr>]\<rparr>))
   = [pod_b]"
  by (simp add: resolveRules_def example_options_def example_outcomes)
     (simp add: example_IsDaemonSetPod_def pod_b_def pod_ds_def)

lemma example_chain_daemon:
  "filter (\<lambda>p. Outcome (drainabilityStatus p
             (resolveRules example_DefaultRules (example_options (Some example_rules)) None))
           = DrainOk \<and> example_IsDaemonSetPod p)
     (map Pod (Pods \<lparr>Pods = [\<lparr>Pod = pod_c\<rparr>, \<lparr>Pod = pod_b\<rparr>, \<lparr>Pod = pod_ds\<rparr>]\<rparr>))
   = [pod_ds]"
  by (simp add: resolveRules_def example_options_def example_outcomes)
     (simp add: example_IsDaemonSetPod_def pod_b_def pod_ds_def)

lemma GetPodsToMove_loop_no_block:
  "\<forall>p \<in> set ps. Outcome (drainabilityStatus (Pod p) dr) \<noteq> BlockDrain \<Longrightarrow>
   GetPodsToMove_loop isDS dr ps a b c =
     Finished
       (a @ filter (\<lambda>p. Outcome (drainabilityStatus p dr) = UndefinedOutcome) (map Pod ps))
       (b @ filter (\<lambda>p. Outcome (drainabilityStatus p dr) = DrainOk \<and> \<not> isDS p) (map Pod ps))
       (c @ filter (\<lambda>p. Outcome (drainabilityStatus p dr) = DrainOk \<and> isDS p) (map Pod ps))"
proof (induction ps arbitrary: a b c)
  case Nil
  then show ?case by simp
next
  case (Cons p ps)
  then show ?case
    by (cases "Outcome (drainabilityStatus (Pod p) dr)") (simp_all add: Let_def)
qed

lemma GetPodsToMove_loop_block:
  "\<forall>p \<in> set pre. Outcome (drainabilityStatus (Pod p) dr) \<noteq> BlockDrain \<Longrightarrow>
   Outcome (drainabilityStatus (Pod k) dr) = BlockDrain \<Longrightarrow>
   GetPodsToMove_loop isDS dr (pre @ k # post) a b c =
     Blocked
       (a @ filter (\<lambda>p. Outcome (drainabilityStatus p dr) = UndefinedOutcome) (map Pod pre))
       \<lparr>blocking_Pod = Pod k, Reason = BlockingReason (drainabilityStatus (Pod k) dr)\<rparr>
       (Error (drainabilityStatus (Pod k) dr))"
proof (induction pre arbitrary: a b c)
  case Nil
  then show ?case by (simp add: Let_def)
next
  case (Cons p pre)
  then show ?case
    by (cases "Outcome (drainabilityStatus (Pod p) dr)") (simp_all add: Let_def)
qed


lemma GetPodsToMove_blocked:
  assumes "Pods nodeInfo = pre @ k # post"
    and "\<forall>p \<in> set pre. Outcome (drainabilityStatus (Pod p)
           (resolveRules DefaultRules deleteOptions remainingPdbTracker)) \<noteq> BlockDrain"
    and "Outcome (drainabilityStatus (Pod k)
           (resolveRules DefaultRules deleteOptions remainingPdbTracker)) = BlockDrain"
  shows "GetPodsToMove DefaultRules isDS legacy nodeInfo deleteOptions listers
           remainingPdbTracker timestamp =
         (filter (\<lambda>p. Outcome (drainabilityStatus p
                    (resolveRules DefaultRules deleteOptions remainingPdbTracker))
                  = UndefinedOutcome) (map Pod pre),
          [],
          Some \<lparr>blocking_Pod = Pod k,
                Reason = BlockingReason (drainabilityStatus (Pod k)
                  (resolveRules DefaultRules deleteOptions remainingPdbTracker))\<rparr>,
          Error (drainabilityStatus (Pod k)
                  (resolveRules DefaultRules deleteOptions remainingPdbTracker)))"
  using GetPodsToMove_loop_block [OF assms(2) assms(3), of isDS post "[]" "[]" "[]"] assms(1)
  by (simp add: GetPodsToMove_def Let_def)

lemma GetPodsToMove_finished:
  assumes "\<forall>p \<in> set (Pods nodeInfo). Outcome (drainabilityStatus (Pod p)
           (resolveRules DefaultRules deleteOptions remainingPdbTracker)) \<noteq> BlockDrain"
    and "legacy
           (filter (\<lambda>p. Outcome (drainabilityStatus p
                     (resolveRules DefaultRules deleteOptions remainingPdbTracker))
                   = UndefinedOutcome) (map Pod (Pods nodeInfo)))
           (case remainingPdbTracker of None \<Rightarrow> [] | Some t \<Rightarrow> GetPdbs t)
           (SkipNodesWithSystemPods deleteOptions)
           (SkipNodesWithLocalStorage deleteOptions)
           (SkipNodesWithCustomControllerPods deleteOptions)
           listers (ucast (MinReplicaCount deleteOptions)) timestamp
         = (legacyPods, legacyDS, legacyBlockingPod, legacyErr)"
  shows "GetPodsToMove DefaultRules isDS legacy nodeInfo deleteOptions listers
           remainingPdbTracker timestamp =
         (legacyPods @
            filter (\<lambda>p. Outcome (drainabilityStatus p
                     (resolveRules DefaultRules deleteOptions remainingPdbTracker)) = DrainOk
                   \<and> \<not> isDS p) (map Pod (Pods nodeInfo)),
          legacyDS @
            filter (\<lambda>p. Outcome (drainabilityStatus p
                     (resolveRules DefaultRules deleteOptions remainingPdbTracker)) = DrainOk
                   \<and> isDS p) (map Pod (Pods nodeInfo)),
          if legacyErr \<noteq> None then legacyBlockingPod else None,
          legacyErr)"
  using GetPodsToMove_loop_no_block [OF assms(1), of isDS "[]" "[]" "[]"] assms(2)
  by (auto simp: GetPodsToMove_def Let_def)

lemma drainabilityStatus_log_fst:
  "fst (drainabilityStatus_log pod dr i) = drainabilityStatus pod dr"
  by (induction dr arbitrary: i) (simp_all add: Let_def)

lemma GetPodsToMove_loop_log_fst:
  "fst (GetPodsToMove_loop_log isDS dr ps j a b c) = GetPodsToMove_loop isDS dr ps a b c"
proof (induction ps arbitrary: j a b c)
  case Nil
  then show ?case by simp
next
  case (Cons p ps)
  show ?case
    by (cases "Outcome (drainabilityStatus (Pod p) dr)")
       (simp_all add: drainabilityStatus_log_fst Let_def Cons.IH)
qed

lemma drainabilityStatus_log_nonempty:
  "dr \<noteq> [] \<Longrightarrow> snd (drainabilityStatus_log pod dr i) \<noteq> []"
  by (cases dr) (simp_all add: Let_def)

lemma drainabilityStatus_log_upt:
  "snd (drainabilityStatus_log pod dr i)
     = [i ..< i + length (snd (drainabilityStatus_log pod dr i))]"
proof (induction dr arbitrary: i)
  case Nil
  then show ?case by simp
next
  case (Cons f dr)
  show ?case
  proof (cases "Outcome (f pod) = UndefinedOutcome")
    case True
    have "i # [Suc i ..< Suc i + length (snd (drainabilityStatus_log pod dr (Suc i)))]
            = [i ..< i + Suc (length (snd (drainabilityStatus_log pod dr (Suc i))))]"
      by (simp add: upt_rec)
    with True Cons.IH [of "Suc i"] show ?thesis by (simp add: Let_def)
  next
    case False
    then show ?thesis by (simp add: Let_def)
  qed
qed

lemma pod_calls_sorted:
  "sorted_wrt call_before (map (Pair j) (snd (drainabilityStatus_log pod dr 0)))"
proof -
  have "sorted_wrt (<) (snd (drainabilityStatus_log pod dr 0))"
    using drainabilityStatus_log_upt [of pod dr 0] sorted_wrt_upt
    by metis
  then show ?thesis
    by (simp add: sorted_wrt_map call_before_def)
qed

lemma GetPodsToMove_loop_log_step:
  "Outcome (drainabilityStatus (Pod p) dr) \<noteq> BlockDrain \<Longrightarrow>
   \<exists>a' b' c'. snd (GetPodsToMove_loop_log isDS dr (p # rest) j a b c) =
     map (Pair j) (snd (drainabilityStatus_log (Pod p) dr 0))
     @ snd (GetPodsToMove_loop_log isDS dr rest (Suc j) a' b' c')"
  by (cases "Outcome (drainabilityStatus (Pod p) dr)")
     (auto simp: drainabilityStatus_log_fst Let_def)

lemma GetPodsToMove_loop_log_stop:
  "Outcome (drainabilityStatus (Pod k) dr) = BlockDrain \<Longrightarrow>
   snd (GetPodsToMove_loop_log isDS dr (k # post) j a b c) =
     map (Pair j) (snd (drainabilityStatus_log (Pod k) dr 0))"
  by (simp add: drainabilityStatus_log_fst Let_def)

lemma blocking_chain_nonempty:
  "Outcome (drainabilityStatus pod dr) = BlockDrain \<Longrightarrow> dr \<noteq> []"
  by (cases dr) simp_all

lemma GetPodsToMove_loop_log_block_calls:
  assumes "\<forall>p \<in> set pre. Outcome (drainabilityStatus (Pod p) dr) \<noteq> BlockDrain"
    and "Outcome (drainabilityStatus (Pod k) dr) = BlockDrain"
  shows "sorted_wrt call_before (snd (GetPodsToMove_loop_log isDS dr (pre @ k # post) j a b c))
         \<and> fst ` set (snd (GetPodsToMove_loop_log isDS dr (pre @ k # post) j a b c))
             = {j .. j + length pre}"
  using assms(1)
proof (induction pre arbitrary: j a b c)
  case Nil
  have ne: "snd (drainabilityStatus_log (Pod k) dr 0) \<noteq> []"
    using assms(2) blocking_chain_nonempty drainabilityStatus_log_nonempty by blast
  then have "fst ` set (map (Pair j) (snd (drainabilityStatus_log (Pod k) dr 0))) = {j}"
    by (auto simp: image_iff) (metis last_in_set)
  then show ?case
    using assms(2) by (simp add: GetPodsToMove_loop_log_stop pod_calls_sorted del: GetPodsToMove_loop_log.simps)
next
  case (Cons p pre)
  let ?here = "map (Pair j) (snd (drainabilityStatus_log (Pod p) dr 0))"
  from Cons.prems have np: "Outcome (drainabilityStatus (Pod p) dr) \<noteq> BlockDrain"
    and rest: "\<forall>q \<in> set pre. Outcome (drainabilityStatus (Pod q) dr) \<noteq> BlockDrain"
    by simp_all
  from GetPodsToMove_loop_log_step [OF np, of isDS "pre @ k # post" j a b c]
  obtain a' b' c' where
    step: "snd (GetPodsToMove_loop_log isDS dr ((p # pre) @ k # post) j a b c) =
             ?here @ snd (GetPodsToMove_loop_log isDS dr (pre @ k # post) (Suc j) a' b' c')"
    by auto
  let ?later = "snd (GetPodsToMove_loop_log isDS dr (pre @ k # post) (Suc j) a' b' c')"
  from Cons.IH [OF rest, of "Suc j" a' b' c']
  have s: "sorted_wrt call_before ?later"
    and f: "fst ` set ?later = {Suc j .. Suc j + length pre}"
    by simp_all
  have ne: "snd (drainabilityStatus_log (Pod p) dr 0) \<noteq> []"
    using assms(2) blocking_chain_nonempty drainabilityStatus_log_nonempty by blast
  then have h: "fst ` set ?here = {j}"
    by (auto simp: image_iff) (metis last_in_set)
  have cross: "\<forall>x \<in> set ?here. \<forall>y \<in> set ?later. call_before x y"
  proof (intro ballI)
    fix x y assume "x \<in> set ?here" "y \<in> set ?later"
    then have "fst x = j" "fst y \<in> {Suc j .. Suc j + length pre}"
      using h f by blast+
    then show "call_before x y" by (simp add: call_before_def)
  qed
  have "sorted_wrt call_before (?here @ ?later)"
    using s cross pod_calls_sorted [of j "Pod p" dr] by (simp add: sorted_wrt_append)
  moreover have "fst ` set (?here @ ?later) = {j .. j + length (p # pre)}"
    using h f by (auto simp: image_Un)
  ultimately show ?case unfolding step by simp
qed

lemma drainabilityStatus_log_exact:
  "snd (drainabilityStatus_log pod dr i) = [i ..< i + rules_called pod dr]"
proof (induction dr arbitrary: i)
  case Nil
  then show ?case by (simp add: rules_called_def)
next
  case (Cons f dr)
  show ?case
  proof (cases "Outcome (f pod) = UndefinedOutcome")
    case True
    then have "rules_called pod (f # dr) = Suc (rules_called pod dr)"
      by (simp add: rules_called_def)
    moreover have "i # [Suc i ..< Suc i + rules_called pod dr]
                     = [i ..< i + Suc (rules_called pod dr)]"
      by (simp add: upt_rec)
    ultimately show ?thesis using True Cons.IH [of "Suc i"] by (simp add: Let_def)
  next
    case False
    then show ?thesis by (simp add: rules_called_def Let_def)
  qed
qed

lemma GetPodsToMove_loop_log_exact:
  "snd (GetPodsToMove_loop_log isDS dr ps j a b c) =
     concat (map (\<lambda>i. map (Pair (j + i)) [0 ..< rules_called (Pod (ps ! i)) dr])
               [0 ..< pods_evaluated dr ps])"
proof (induction ps arbitrary: j a b c)
  case Nil
  then show ?case by (simp add: pods_evaluated_def)
next
  case (Cons p ps)
  have here: "map (Pair j) (snd (drainabilityStatus_log (Pod p) dr 0))
                = map (Pair (j + 0)) [0 ..< rules_called (Pod ((p # ps) ! 0)) dr]"
    by (simp add: drainabilityStatus_log_exact)
  show ?case
  proof (cases "Outcome (drainabilityStatus (Pod p) dr) = BlockDrain")
    case True
    then have "pods_evaluated dr (p # ps) = 1"
      by (simp add: pods_evaluated_def)
    then show ?thesis
      using GetPodsToMove_loop_log_stop [OF True, of isDS ps j a b c] here
      by (simp del: GetPodsToMove_loop_log.simps)
  next
    case False
    then have n: "pods_evaluated dr (p # ps) = Suc (pods_evaluated dr ps)"
      by (simp add: pods_evaluated_def)
    from GetPodsToMove_loop_log_step [OF False, of isDS ps j a b c]
    obtain a' b' c' where
      step: "snd (GetPodsToMove_loop_log isDS dr (p # ps) j a b c) =
               map (Pair j) (snd (drainabilityStatus_log (Pod p) dr 0))
               @ snd (GetPodsToMove_loop_log isDS dr ps (Suc j) a' b' c')"
      by auto
    have "[0 ..< Suc (pods_evaluated dr ps)] = 0 # map Suc [0 ..< pods_evaluated dr ps]"
      by (metis upt_conv_Cons map_Suc_upt zero_less_Suc)
    then have "concat (map (\<lambda>i. map (Pair (j + i)) [0 ..< rules_called (Pod ((p # ps) ! i)) dr])
                         [0 ..< pods_evaluated dr (p # ps)])
               = map (Pair (j + 0)) [0 ..< rules_called (Pod ((p # ps) ! 0)) dr]
                 @ concat (map (\<lambda>i. map (Pair (Suc j + i)) [0 ..< rules_called (Pod (ps ! i)) dr])
                             [0 ..< pods_evaluated dr ps])"
      unfolding n by (simp add: comp_def del: upt_Suc)
    then show ?thesis
      unfolding step here Cons.IH [of "Suc j" a' b' c'] by simp
  qed
qed

lemma pod_calls_fst:
  "fst ` set (map (Pair j) xs) \<subseteq> {j}"
  by auto

lemma GetPodsToMove_loop_log_sorted:
  "sorted_wrt call_before (snd (GetPodsToMove_loop_log isDS dr ps j a b c))
   \<and> fst ` set (snd (GetPodsToMove_loop_log isDS dr ps j a b c)) \<subseteq> {j ..< j + length ps}"
proof (induction ps arbitrary: j a b c)
  case Nil
  then show ?case by simp
next
  case (Cons p ps)
  let ?here = "map (Pair j) (snd (drainabilityStatus_log (Pod p) dr 0))"
  have h: "fst ` set ?here \<subseteq> {j}" by (rule pod_calls_fst)
  show ?case
  proof (cases "Outcome (drainabilityStatus (Pod p) dr) = BlockDrain")
    case True
    have "fst ` set ?here \<subseteq> {j ..< j + length (p # ps)}" using h by auto
    then show ?thesis
      using GetPodsToMove_loop_log_stop [OF True, of isDS ps j a b c]
            pod_calls_sorted [of j "Pod p" dr]
      by (simp del: GetPodsToMove_loop_log.simps)
  next
    case False
    from GetPodsToMove_loop_log_step [OF False, of isDS ps j a b c]
    obtain a' b' c' where
      step: "snd (GetPodsToMove_loop_log isDS dr (p # ps) j a b c) =
               ?here @ snd (GetPodsToMove_loop_log isDS dr ps (Suc j) a' b' c')"
      by auto
    let ?later = "snd (GetPodsToMove_loop_log isDS dr ps (Suc j) a' b' c')"
    from Cons.IH [of "Suc j" a' b' c']
    have s: "sorted_wrt call_before ?later"
      and f: "fst ` set ?later \<subseteq> {Suc j ..< Suc j + length ps}"
      by simp_all
    have cross: "\<forall>x \<in> set ?here. \<forall>y \<in> set ?later. call_before x y"
    proof (intro ballI)
      fix x y assume "x \<in> set ?here" "y \<in> set ?later"
      then have "fst x = j" "fst y \<in> {Suc j ..< Suc j + length ps}"
        using h f by blast+
      then show "call_before x y" by (simp add: call_before_def)
    qed
    have "sorted_wrt call_before (?here @ ?later)"
      using s cross pod_calls_sorted [of j "Pod p" dr] by (simp add: sorted_wrt_append)
    moreover have "fst ` set (?here @ ?later) \<subseteq> {j ..< j + length (p # ps)}"
      using h f by (auto simp: image_Un)
    ultimately show ?thesis unfolding step by simp
  qed
qed

lemma GetPodsToMove_loop_log_all_pods:
  assumes "dr \<noteq> []"
    and "\<forall>p \<in> set ps. Outcome (drainabilityStatus (Pod p) dr) \<noteq> BlockDrain"
  shows "fst ` set (snd (GetPodsToMove_loop_log isDS dr ps j a b c)) = {j ..< j + length ps}"
  using assms(2)
proof (induction ps arbitrary: j a b c)
  case Nil
  then show ?case by simp
next
  case (Cons p ps)
  let ?here = "map (Pair j) (snd (drainabilityStatus_log (Pod p) dr 0))"
  from Cons.prems have np: "Outcome (drainabilityStatus (Pod p) dr) \<noteq> BlockDrain"
    and rest: "\<forall>q \<in> set ps. Outcome (drainabilityStatus (Pod q) dr) \<noteq> BlockDrain"
    by simp_all
  from GetPodsToMove_loop_log_step [OF np, of isDS ps j a b c]
  obtain a' b' c' where
    step: "snd (GetPodsToMove_loop_log isDS dr (p # ps) j a b c) =
             ?here @ snd (GetPodsToMove_loop_log isDS dr ps (Suc j) a' b' c')"
    by auto
  have ne: "snd (drainabilityStatus_log (Pod p) dr 0) \<noteq> []"
    using assms(1) drainabilityStatus_log_nonempty by blast
  then have h: "fst ` set ?here = {j}"
    by (auto simp: image_iff) (metis last_in_set)
  from Cons.IH [OF rest, of "Suc j" a' b' c'] h
  show ?case unfolding step by (auto simp: image_Un)
qed

text \<open>
  Claim C2. When the chain returns Block at pod \<open>k\<close> (and at no pod before it),
  \<^verbatim>\<open>GetPodsToMove\<close> returns as movable list exactly the pods before \<open>k\<close> that
  the chain left Undefined, in their order, and an empty daemon list; no pod the chain
  classified \<open>DrainOk\<close> before the block is in either list.
\<close>

theorem GetPodsToMove_block_lists:
  assumes "Pods nodeInfo = pre @ k # post"
    and "\<forall>p \<in> set pre. Outcome (drainabilityStatus (Pod p)
           (resolveRules DefaultRules deleteOptions remainingPdbTracker)) \<noteq> BlockDrain"
    and "Outcome (drainabilityStatus (Pod k)
           (resolveRules DefaultRules deleteOptions remainingPdbTracker)) = BlockDrain"
    and "GetPodsToMove DefaultRules IsDaemonSetPod GetPodsForDeletionOnNodeDrain nodeInfo
           deleteOptions listers remainingPdbTracker timestamp
         = (pods, daemonSetPods, blockingPod, err)"
  shows "pods = filter (\<lambda>p. Outcome (drainabilityStatus p
                    (resolveRules DefaultRules deleteOptions remainingPdbTracker))
                  = UndefinedOutcome) (map Pod pre)
         \<and> daemonSetPods = []
         \<and> (\<forall>p \<in> set pre.
              Outcome (drainabilityStatus (Pod p)
                (resolveRules DefaultRules deleteOptions remainingPdbTracker)) = DrainOk
              \<longrightarrow> Pod p \<notin> set pods \<and> Pod p \<notin> set daemonSetPods)"
  using GetPodsToMove_blocked [OF assms(1) assms(2) assms(3),
          of IsDaemonSetPod GetPodsForDeletionOnNodeDrain listers timestamp] assms(4)
  by auto

theorem GetPodsToMove_block_lists_witness:
  "list_all
     (\<lambda>p. Outcome (drainabilityStatus (Pod p)
        (resolveRules example_DefaultRules (example_options (Some example_rules)) None))
      \<noteq> BlockDrain)
     [\<lparr>Pod = pod_c\<rparr>, \<lparr>Pod = pod_b\<rparr>, \<lparr>Pod = pod_ds\<rparr>]
   \<and> Outcome (drainabilityStatus (Pod \<lparr>Pod = pod_a\<rparr>)
        (resolveRules example_DefaultRules (example_options (Some example_rules)) None))
      = BlockDrain
   \<and> Outcome (drainabilityStatus pod_b
        (resolveRules example_DefaultRules (example_options (Some example_rules)) None))
      = DrainOk
   \<and> GetPodsToMove example_DefaultRules example_IsDaemonSetPod legacy_all_movable
        \<lparr>Pods = [\<lparr>Pod = pod_c\<rparr>, \<lparr>Pod = pod_b\<rparr>, \<lparr>Pod = pod_ds\<rparr>, \<lparr>Pod = pod_a\<rparr>,
                 \<lparr>Pod = pod_b\<rparr>]\<rparr>
        (example_options (Some example_rules)) () None 0
      = ([pod_c], [],
         Some \<lparr>blocking_Pod = pod_a, Reason = NotEnoughPdb\<rparr>,
         Some ''not enough pod disruption budget to move default/a'')
   \<and> pod_b \<notin> set [pod_c]"
proof -
  let ?node = "\<lparr>Pods = [\<lparr>Pod = pod_c\<rparr>, \<lparr>Pod = pod_b\<rparr>, \<lparr>Pod = pod_ds\<rparr>, \<lparr>Pod = pod_a\<rparr>,
                         \<lparr>Pod = pod_b\<rparr>]\<rparr>"
  let ?dr = "resolveRules example_DefaultRules (example_options (Some example_rules)) None"
  have dr: "?dr = example_rules"
    by (simp add: resolveRules_def example_options_def)
  have 1: "Pods ?node = [\<lparr>Pod = pod_c\<rparr>, \<lparr>Pod = pod_b\<rparr>, \<lparr>Pod = pod_ds\<rparr>]
                          @ \<lparr>Pod = pod_a\<rparr> # [\<lparr>Pod = pod_b\<rparr>]"
    by simp
  have 2: "\<forall>p \<in> set [\<lparr>Pod = pod_c\<rparr>, \<lparr>Pod = pod_b\<rparr>, \<lparr>Pod = pod_ds\<rparr>].
             Outcome (drainabilityStatus (Pod p) ?dr) \<noteq> BlockDrain"
    by (simp add: dr example_outcomes)
  have 3: "Outcome (drainabilityStatus (Pod \<lparr>Pod = pod_a\<rparr>) ?dr) = BlockDrain"
    by (simp add: dr example_outcomes NewBlockedStatus_def)
  have 5: "Outcome (drainabilityStatus pod_b ?dr) = DrainOk"
    by (simp add: dr example_outcomes)
  have 6: "GetPodsToMove example_DefaultRules example_IsDaemonSetPod legacy_all_movable
             ?node (example_options (Some example_rules)) () None 0
           = ([pod_c], [],
              Some \<lparr>blocking_Pod = pod_a, Reason = NotEnoughPdb\<rparr>,
              Some ''not enough pod disruption budget to move default/a'')"
    by (simp add: GetPodsToMove_def example_node_defs example_defs Let_def)
  from GetPodsToMove_block_lists [OF 1 2 3 6]
  have "\<forall>p \<in> set [\<lparr>Pod = pod_c\<rparr>, \<lparr>Pod = pod_b\<rparr>, \<lparr>Pod = pod_ds\<rparr>].
          Outcome (drainabilityStatus (Pod p) ?dr) = DrainOk
          \<longrightarrow> Pod p \<notin> set [pod_c] \<and> Pod p \<notin> set []"
    by blast
  then have "Outcome (drainabilityStatus (Pod \<lparr>Pod = pod_b\<rparr>) ?dr) = DrainOk
             \<longrightarrow> Pod \<lparr>Pod = pod_b\<rparr> \<notin> set [pod_c]"
    by (meson list.set_intros)
  with 5 have 7: "pod_b \<notin> set [pod_c]" by simp
  from 2 3 5 6 7 show ?thesis unfolding list_all_iff by blast
qed

text \<open>
  Claim C9. On every node the calls of rules are made in the order of the pods and, on
  one pod, in the order of the rules: they are exactly the calls of the chain on the
  pods up to the first blocking one, each pod of a node that no rule blocks being
  evaluated. When the chain returns Block at pod \<open>k\<close> (and at no pod before it), the
  blocking pod is \<open>k\<close> with the status's reason, the error is the status's error,
  and rules are called on every pod up to \<open>k\<close> and on no pod after it.
\<close>

theorem GetPodsToMove_evaluation_order:
  "GetPodsToMove_calls DefaultRules IsDaemonSetPod nodeInfo deleteOptions remainingPdbTracker
     = concat (map (\<lambda>i. map (Pair i)
                 [0 ..< rules_called (Pod (Pods nodeInfo ! i))
                          (resolveRules DefaultRules deleteOptions remainingPdbTracker)])
               [0 ..< pods_evaluated
                        (resolveRules DefaultRules deleteOptions remainingPdbTracker)
                        (Pods nodeInfo)])
   \<and> sorted_wrt call_before
        (GetPodsToMove_calls DefaultRules IsDaemonSetPod nodeInfo deleteOptions
           remainingPdbTracker)
   \<and> fst ` set (GetPodsToMove_calls DefaultRules IsDaemonSetPod nodeInfo deleteOptions
                   remainingPdbTracker)
       \<subseteq> {0 ..< length (Pods nodeInfo)}
   \<and> (resolveRules DefaultRules deleteOptions remainingPdbTracker \<noteq> []
       \<and> (\<forall>p \<in> set (Pods nodeInfo). Outcome (drainabilityStatus (Pod p)
              (resolveRules DefaultRules deleteOptions remainingPdbTracker)) \<noteq> BlockDrain)
       \<longrightarrow> fst ` set (GetPodsToMove_calls DefaultRules IsDaemonSetPod nodeInfo
                          deleteOptions remainingPdbTracker)
             = {0 ..< length (Pods nodeInfo)})
   \<and> (\<forall>pre k post.
         Pods nodeInfo = pre @ k # post
         \<and> (\<forall>p \<in> set pre. Outcome (drainabilityStatus (Pod p)
                (resolveRules DefaultRules deleteOptions remainingPdbTracker)) \<noteq> BlockDrain)
         \<and> Outcome (drainabilityStatus (Pod k)
                (resolveRules DefaultRules deleteOptions remainingPdbTracker)) = BlockDrain
         \<longrightarrow> snd (snd (GetPodsToMove DefaultRules IsDaemonSetPod
                           GetPodsForDeletionOnNodeDrain nodeInfo deleteOptions listers
                           remainingPdbTracker timestamp))
               = (Some \<lparr>blocking_Pod = Pod k,
                        Reason = BlockingReason (drainabilityStatus (Pod k)
                          (resolveRules DefaultRules deleteOptions remainingPdbTracker))\<rparr>,
                  Error (drainabilityStatus (Pod k)
                          (resolveRules DefaultRules deleteOptions remainingPdbTracker)))
             \<and> fst ` set (GetPodsToMove_calls DefaultRules IsDaemonSetPod nodeInfo
                             deleteOptions remainingPdbTracker)
                 = {0 .. length pre})"
proof -
  let ?dr = "resolveRules DefaultRules deleteOptions remainingPdbTracker"
  let ?calls = "GetPodsToMove_calls DefaultRules IsDaemonSetPod nodeInfo deleteOptions
                  remainingPdbTracker"
  have calls: "?calls = snd (GetPodsToMove_loop_log IsDaemonSetPod ?dr (Pods nodeInfo) 0
                               [] [] [])"
    by (simp add: GetPodsToMove_calls_def)
  have 1: "?calls = concat (map (\<lambda>i. map (Pair i)
                      [0 ..< rules_called (Pod (Pods nodeInfo ! i)) ?dr])
                    [0 ..< pods_evaluated ?dr (Pods nodeInfo)])"
    unfolding calls
    using GetPodsToMove_loop_log_exact [of IsDaemonSetPod ?dr "Pods nodeInfo" 0 "[]" "[]" "[]"]
    by simp
  have 2: "sorted_wrt call_before ?calls"
    and 3: "fst ` set ?calls \<subseteq> {0 ..< length (Pods nodeInfo)}"
    unfolding calls
    using GetPodsToMove_loop_log_sorted [of IsDaemonSetPod ?dr "Pods nodeInfo" 0 "[]" "[]" "[]"]
    by simp_all
  have 4: "fst ` set ?calls = {0 ..< length (Pods nodeInfo)}"
    if "?dr \<noteq> []"
      and "\<forall>p \<in> set (Pods nodeInfo). Outcome (drainabilityStatus (Pod p) ?dr) \<noteq> BlockDrain"
    unfolding calls
    using GetPodsToMove_loop_log_all_pods [OF that, of IsDaemonSetPod 0 "[]" "[]" "[]"]
    by simp
  have 5: "snd (snd (GetPodsToMove DefaultRules IsDaemonSetPod GetPodsForDeletionOnNodeDrain
                       nodeInfo deleteOptions listers remainingPdbTracker timestamp))
             = (Some \<lparr>blocking_Pod = Pod k,
                      Reason = BlockingReason (drainabilityStatus (Pod k) ?dr)\<rparr>,
                Error (drainabilityStatus (Pod k) ?dr))
           \<and> fst ` set ?calls = {0 .. length pre}"
    if dec: "Pods nodeInfo = pre @ k # post"
      and pre: "\<forall>p \<in> set pre. Outcome (drainabilityStatus (Pod p) ?dr) \<noteq> BlockDrain"
      and k: "Outcome (drainabilityStatus (Pod k) ?dr) = BlockDrain"
    for pre k post
    using GetPodsToMove_blocked
            [where legacy = GetPodsForDeletionOnNodeDrain and isDS = IsDaemonSetPod,
             OF dec pre k, of listers timestamp]
          GetPodsToMove_loop_log_block_calls [OF pre k, of IsDaemonSetPod post 0 "[]" "[]" "[]"]
          dec
    by (simp add: GetPodsToMove_calls_def)
  show ?thesis
  proof (intro conjI)
    show "?calls = concat (map (\<lambda>i. map (Pair i)
                      [0 ..< rules_called (Pod (Pods nodeInfo ! i)) ?dr])
                    [0 ..< pods_evaluated ?dr (Pods nodeInfo)])"
      by (rule 1)
    show "sorted_wrt call_before ?calls" by (rule 2)
    show "fst ` set ?calls \<subseteq> {0 ..< length (Pods nodeInfo)}" by (rule 3)
    show "?dr \<noteq> []
          \<and> (\<forall>p \<in> set (Pods nodeInfo).
                 Outcome (drainabilityStatus (Pod p) ?dr) \<noteq> BlockDrain)
          \<longrightarrow> fst ` set ?calls = {0 ..< length (Pods nodeInfo)}"
      using 4 by (intro impI) (elim conjE)
    show "\<forall>pre k post.
            Pods nodeInfo = pre @ k # post
            \<and> (\<forall>p \<in> set pre. Outcome (drainabilityStatus (Pod p) ?dr) \<noteq> BlockDrain)
            \<and> Outcome (drainabilityStatus (Pod k) ?dr) = BlockDrain
            \<longrightarrow> snd (snd (GetPodsToMove DefaultRules IsDaemonSetPod
                              GetPodsForDeletionOnNodeDrain nodeInfo deleteOptions listers
                              remainingPdbTracker timestamp))
                  = (Some \<lparr>blocking_Pod = Pod k,
                           Reason = BlockingReason (drainabilityStatus (Pod k) ?dr)\<rparr>,
                     Error (drainabilityStatus (Pod k) ?dr))
                \<and> fst ` set ?calls = {0 .. length pre}"
      using 5 by (intro allI impI) (elim conjE)
  qed
qed

theorem GetPodsToMove_evaluation_order_witness:
  "list_all
     (\<lambda>p. Outcome (drainabilityStatus (Pod p)
        (resolveRules example_DefaultRules (example_options (Some example_rules)) None))
      \<noteq> BlockDrain)
     [\<lparr>Pod = pod_c\<rparr>, \<lparr>Pod = pod_b\<rparr>, \<lparr>Pod = pod_ds\<rparr>]
   \<and> drainabilityStatus (Pod \<lparr>Pod = pod_a\<rparr>)
        (resolveRules example_DefaultRules (example_options (Some example_rules)) None)
      = NewBlockedStatus NotEnoughPdb
          (Some ''not enough pod disruption budget to move default/a'')
   \<and> snd (snd (GetPodsToMove example_DefaultRules example_IsDaemonSetPod legacy_all_movable
        \<lparr>Pods = [\<lparr>Pod = pod_c\<rparr>, \<lparr>Pod = pod_b\<rparr>, \<lparr>Pod = pod_ds\<rparr>, \<lparr>Pod = pod_a\<rparr>,
                 \<lparr>Pod = pod_b\<rparr>]\<rparr>
        (example_options (Some example_rules)) () None 0))
      = (Some \<lparr>blocking_Pod = pod_a, Reason = NotEnoughPdb\<rparr>,
         Some ''not enough pod disruption budget to move default/a'')
   \<and> GetPodsToMove_calls example_DefaultRules example_IsDaemonSetPod
        \<lparr>Pods = [\<lparr>Pod = pod_c\<rparr>, \<lparr>Pod = pod_b\<rparr>, \<lparr>Pod = pod_ds\<rparr>, \<lparr>Pod = pod_a\<rparr>,
                 \<lparr>Pod = pod_b\<rparr>]\<rparr>
        (example_options (Some example_rules)) None
      = [(0, 0), (0, 1), (1, 0), (2, 0), (3, 0), (3, 1)]
   \<and> sorted_wrt call_before [(0, 0), (0, 1), (1, 0), (2, 0), (3, 0), (3::nat, 1::nat)]
   \<and> fst ` set [(0, 0), (0, 1), (1, 0), (2, 0), (3, 0), (3::nat, 1::nat)]
       = {0 .. length [\<lparr>Pod = pod_c\<rparr>, \<lparr>Pod = pod_b\<rparr>, \<lparr>Pod = pod_ds\<rparr>]}
   \<and> resolveRules example_DefaultRules (example_options (Some example_rules)) None \<noteq> []
   \<and> GetPodsToMove_calls example_DefaultRules example_IsDaemonSetPod
        \<lparr>Pods = [\<lparr>Pod = pod_c\<rparr>, \<lparr>Pod = pod_b\<rparr>, \<lparr>Pod = pod_ds\<rparr>]\<rparr>
        (example_options (Some example_rules)) None
      = [(0, 0), (0, 1), (1, 0), (2, 0)]
   \<and> fst ` set [(0, 0), (0, 1), (1, 0), (2::nat, 0::nat)]
       = {0 ..< length (Pods \<lparr>Pods = [\<lparr>Pod = pod_c\<rparr>, \<lparr>Pod = pod_b\<rparr>, \<lparr>Pod = pod_ds\<rparr>]\<rparr>)}"
proof -
  let ?node = "\<lparr>Pods = [\<lparr>Pod = pod_c\<rparr>, \<lparr>Pod = pod_b\<rparr>, \<lparr>Pod = pod_ds\<rparr>, \<lparr>Pod = pod_a\<rparr>,
                         \<lparr>Pod = pod_b\<rparr>]\<rparr>"
  let ?free = "\<lparr>Pods = [\<lparr>Pod = pod_c\<rparr>, \<lparr>Pod = pod_b\<rparr>, \<lparr>Pod = pod_ds\<rparr>]\<rparr>"
  let ?dr = "resolveRules example_DefaultRules (example_options (Some example_rules)) None"
  have dr: "?dr = example_rules"
    by (simp add: resolveRules_def example_options_def)
  have ne: "?dr \<noteq> []"
    unfolding dr by (simp add: example_rules_def)
  have 1: "Pods ?node = [\<lparr>Pod = pod_c\<rparr>, \<lparr>Pod = pod_b\<rparr>, \<lparr>Pod = pod_ds\<rparr>]
                          @ \<lparr>Pod = pod_a\<rparr> # [\<lparr>Pod = pod_b\<rparr>]"
    by simp
  have 2: "\<forall>p \<in> set [\<lparr>Pod = pod_c\<rparr>, \<lparr>Pod = pod_b\<rparr>, \<lparr>Pod = pod_ds\<rparr>].
             Outcome (drainabilityStatus (Pod p) ?dr) \<noteq> BlockDrain"
    by (simp add: dr example_outcomes)
  have a: "drainabilityStatus (Pod \<lparr>Pod = pod_a\<rparr>) ?dr
             = NewBlockedStatus NotEnoughPdb
                 (Some ''not enough pod disruption budget to move default/a'')"
    by (simp add: dr example_outcomes)
  then have 3: "Outcome (drainabilityStatus (Pod \<lparr>Pod = pod_a\<rparr>) ?dr) = BlockDrain"
    by (simp add: NewBlockedStatus_def)
  have calls: "GetPodsToMove_calls example_DefaultRules example_IsDaemonSetPod ?node
                 (example_options (Some example_rules)) None
               = [(0, 0), (0, 1), (1, 0), (2, 0), (3, 0), (3, 1)]"
    by (simp add: GetPodsToMove_calls_def example_node_defs example_defs Let_def)
  have calls_free: "GetPodsToMove_calls example_DefaultRules example_IsDaemonSetPod ?free
                 (example_options (Some example_rules)) None
               = [(0, 0), (0, 1), (1, 0), (2, 0)]"
    by (simp add: GetPodsToMove_calls_def example_node_defs example_defs Let_def)
  note blocked = GetPodsToMove_evaluation_order
    [where DefaultRules = example_DefaultRules and IsDaemonSetPod = example_IsDaemonSetPod
       and nodeInfo = ?node and deleteOptions = "example_options (Some example_rules)"
       and remainingPdbTracker = None and GetPodsForDeletionOnNodeDrain = legacy_all_movable
       and listers = "()" and timestamp = "0::nat"]
  note free = GetPodsToMove_evaluation_order
    [where DefaultRules = example_DefaultRules and IsDaemonSetPod = example_IsDaemonSetPod
       and nodeInfo = ?free and deleteOptions = "example_options (Some example_rules)"
       and remainingPdbTracker = None and GetPodsForDeletionOnNodeDrain = legacy_all_movable
       and listers = "()" and timestamp = "0::nat"]
  have s: "sorted_wrt call_before
             (GetPodsToMove_calls example_DefaultRules example_IsDaemonSetPod ?node
                (example_options (Some example_rules)) None)"
    by (rule blocked [THEN conjunct2, THEN conjunct1])
  have "snd (snd (GetPodsToMove example_DefaultRules example_IsDaemonSetPod
                    legacy_all_movable ?node (example_options (Some example_rules)) () None 0))
          = (Some \<lparr>blocking_Pod = Pod \<lparr>Pod = pod_a\<rparr>,
                   Reason = BlockingReason (drainabilityStatus (Pod \<lparr>Pod = pod_a\<rparr>) ?dr)\<rparr>,
             Error (drainabilityStatus (Pod \<lparr>Pod = pod_a\<rparr>) ?dr))
        \<and> fst ` set (GetPodsToMove_calls example_DefaultRules example_IsDaemonSetPod ?node
                         (example_options (Some example_rules)) None)
            = {0 .. length [\<lparr>Pod = pod_c\<rparr>, \<lparr>Pod = pod_b\<rparr>, \<lparr>Pod = pod_ds\<rparr>]}"
    using blocked [THEN conjunct2, THEN conjunct2, THEN conjunct2, THEN conjunct2,
                   rule_format, of "[\<lparr>Pod = pod_c\<rparr>, \<lparr>Pod = pod_b\<rparr>, \<lparr>Pod = pod_ds\<rparr>]"
                                   "\<lparr>Pod = pod_a\<rparr>" "[\<lparr>Pod = pod_b\<rparr>]"]
          1 2 3
    by blast
  then have r: "snd (snd (GetPodsToMove example_DefaultRules example_IsDaemonSetPod
                    legacy_all_movable ?node (example_options (Some example_rules)) () None 0))
          = (Some \<lparr>blocking_Pod = Pod \<lparr>Pod = pod_a\<rparr>,
                   Reason = BlockingReason (drainabilityStatus (Pod \<lparr>Pod = pod_a\<rparr>) ?dr)\<rparr>,
             Error (drainabilityStatus (Pod \<lparr>Pod = pod_a\<rparr>) ?dr))"
    and f: "fst ` set (GetPodsToMove_calls example_DefaultRules example_IsDaemonSetPod ?node
                         (example_options (Some example_rules)) None)
            = {0 .. length [\<lparr>Pod = pod_c\<rparr>, \<lparr>Pod = pod_b\<rparr>, \<lparr>Pod = pod_ds\<rparr>]}"
    by blast+
  from r have r': "snd (snd (GetPodsToMove example_DefaultRules example_IsDaemonSetPod
                    legacy_all_movable ?node (example_options (Some example_rules)) () None 0))
          = (Some \<lparr>blocking_Pod = pod_a, Reason = NotEnoughPdb\<rparr>,
             Some ''not enough pod disruption budget to move default/a'')"
    unfolding a by (simp add: NewBlockedStatus_def)
  from s have s': "sorted_wrt call_before
                     [(0, 0), (0, 1), (1, 0), (2, 0), (3, 0), (3::nat, 1::nat)]"
    by (simp only: calls)
  from f have f': "fst ` set [(0, 0), (0, 1), (1, 0), (2, 0), (3, 0), (3::nat, 1::nat)]
                   = {0 .. length [\<lparr>Pod = pod_c\<rparr>, \<lparr>Pod = pod_b\<rparr>, \<lparr>Pod = pod_ds\<rparr>]}"
    by (simp only: calls)
  have "fst ` set (GetPodsToMove_calls example_DefaultRules example_IsDaemonSetPod ?free
                     (example_options (Some example_rules)) None)
        = {0 ..< length (Pods ?free)}"
    using free [THEN conjunct2, THEN conjunct2, THEN conjunct2, THEN conjunct1, rule_format]
          ne example_no_block
    by blast
  then have g: "fst ` set [(0, 0), (0, 1), (1, 0), (2::nat, 0::nat)]
                = {0 ..< length (Pods ?free)}"
    by (simp only: calls_free)
  from 2 have nb: "list_all
     (\<lambda>p. Outcome (drainabilityStatus (Pod p) ?dr) \<noteq> BlockDrain)
     [\<lparr>Pod = pod_c\<rparr>, \<lparr>Pod = pod_b\<rparr>, \<lparr>Pod = pod_ds\<rparr>]"
    by (simp only: list_all_iff)
  show ?thesis
    by (intro conjI) (rule nb a r' calls s' f' ne calls_free g)+
qed

text \<open>
  Claim C10. When no rule blocks and the legacy function returns no error, the movable
  list is the legacy movable pods followed by the chain's movable pods, the daemon
  list is the legacy daemon pods followed by the chain's daemon pods, and both the
  blocking pod and the error are nil.
\<close>

theorem GetPodsToMove_merge_order:
  assumes "\<forall>p \<in> set (Pods nodeInfo). Outcome (drainabilityStatus (Pod p)
           (resolveRules DefaultRules deleteOptions remainingPdbTracker)) \<noteq> BlockDrain"
    and "GetPodsForDeletionOnNodeDrain
           (filter (\<lambda>p. Outcome (drainabilityStatus p
                     (resolveRules DefaultRules deleteOptions remainingPdbTracker))
                   = UndefinedOutcome) (map Pod (Pods nodeInfo)))
           (case remainingPdbTracker of None \<Rightarrow> [] | Some t \<Rightarrow> GetPdbs t)
           (SkipNodesWithSystemPods deleteOptions)
           (SkipNodesWithLocalStorage deleteOptions)
           (SkipNodesWithCustomControllerPods deleteOptions)
           listers (ucast (MinReplicaCount deleteOptions)) timestamp
         = (legacyPods, legacyDS, legacyBlockingPod, None)"
  shows "GetPodsToMove DefaultRules IsDaemonSetPod GetPodsForDeletionOnNodeDrain nodeInfo
           deleteOptions listers remainingPdbTracker timestamp =
         (legacyPods @
            filter (\<lambda>p. Outcome (drainabilityStatus p
                     (resolveRules DefaultRules deleteOptions remainingPdbTracker)) = DrainOk
                   \<and> \<not> IsDaemonSetPod p) (map Pod (Pods nodeInfo)),
          legacyDS @
            filter (\<lambda>p. Outcome (drainabilityStatus p
                     (resolveRules DefaultRules deleteOptions remainingPdbTracker)) = DrainOk
                   \<and> IsDaemonSetPod p) (map Pod (Pods nodeInfo)),
          None, None)"
  using GetPodsToMove_finished
          [where legacy = GetPodsForDeletionOnNodeDrain and isDS = IsDaemonSetPod,
           OF assms(1) assms(2)]
  by simp

theorem GetPodsToMove_merge_order_witness:
  "list_all
     (\<lambda>p. Outcome (drainabilityStatus (Pod p)
        (resolveRules example_DefaultRules (example_options (Some example_rules)) None))
      \<noteq> BlockDrain)
     (Pods \<lparr>Pods = [\<lparr>Pod = pod_c\<rparr>, \<lparr>Pod = pod_b\<rparr>, \<lparr>Pod = pod_ds\<rparr>]\<rparr>)
   \<and> legacy_all_movable [pod_c] [] True True False () 0 0 = ([pod_c], [], None, None)
   \<and> GetPodsToMove example_DefaultRules example_IsDaemonSetPod legacy_all_movable
        \<lparr>Pods = [\<lparr>Pod = pod_c\<rparr>, \<lparr>Pod = pod_b\<rparr>, \<lparr>Pod = pod_ds\<rparr>]\<rparr>
        (example_options (Some example_rules)) () None 0
      = ([pod_c, pod_b], [pod_ds], None, None)"
proof -
  have l: "legacy_all_movable [pod_c] [] True True False () 0 0 = ([pod_c], [], None, None)"
    by (simp add: legacy_all_movable_def)
  have "legacy_all_movable
          (filter (\<lambda>p. Outcome (drainabilityStatus p
             (resolveRules example_DefaultRules (example_options (Some example_rules)) None))
           = UndefinedOutcome)
             (map Pod (Pods \<lparr>Pods = [\<lparr>Pod = pod_c\<rparr>, \<lparr>Pod = pod_b\<rparr>, \<lparr>Pod = pod_ds\<rparr>]\<rparr>)))
          (case None of None \<Rightarrow> [] | Some t \<Rightarrow> GetPdbs t)
          (SkipNodesWithSystemPods (example_options (Some example_rules)))
          (SkipNodesWithLocalStorage (example_options (Some example_rules)))
          (SkipNodesWithCustomControllerPods (example_options (Some example_rules)))
          () (ucast (MinReplicaCount (example_options (Some example_rules)))) 0
        = ([pod_c], [], None, None)"
    unfolding example_pending by (simp add: legacy_all_movable_def)
  from GetPodsToMove_merge_order
         [where GetPodsForDeletionOnNodeDrain = legacy_all_movable
            and IsDaemonSetPod = example_IsDaemonSetPod, OF example_no_block this]
  have "GetPodsToMove example_DefaultRules example_IsDaemonSetPod legacy_all_movable
          \<lparr>Pods = [\<lparr>Pod = pod_c\<rparr>, \<lparr>Pod = pod_b\<rparr>, \<lparr>Pod = pod_ds\<rparr>]\<rparr>
          (example_options (Some example_rules)) () None 0
        = ([pod_c, pod_b], [pod_ds], None, None)"
    unfolding example_chain_movable example_chain_daemon by simp
  with example_no_block l show ?thesis unfolding list_all_iff by blast
qed

text \<open>
  Claim C3 says that a legacy error is returned at once, without the pods the chain
  classified. The code does otherwise: its two \<^verbatim>\<open>append\<close> calls come before the
  test of \<^verbatim>\<open>err\<close>. At the node \<open>[b, ds, c]\<close>, where the chain lets \<open>b\<close> and
  \<open>ds\<close> drain and leaves \<open>c\<close> to the legacy function, which blames \<open>c\<close> and
  returns empty lists, \<^verbatim>\<open>GetPodsToMove\<close> returns \<open>b\<close> and \<open>ds\<close> with the
  error. The other way to a block, a Block of the chain (here at the node
  \<open>[b, ds, a]\<close>), returns the block with empty lists.
\<close>

theorem GetPodsToMove_legacy_error_keeps_chain_pods:
  "Outcome (drainabilityStatus pod_b example_rules) = DrainOk
   \<and> Outcome (drainabilityStatus pod_ds example_rules) = DrainOk
   \<and> Outcome (drainabilityStatus pod_c example_rules) = UndefinedOutcome
   \<and> legacy_not_replicated [pod_c] [] True True False () 0 0
       = ([], [], Some \<lparr>blocking_Pod = pod_c, Reason = NotReplicated\<rparr>,
          Some ''c is not replicated'')
   \<and> GetPodsToMove example_DefaultRules example_IsDaemonSetPod legacy_not_replicated
        \<lparr>Pods = [\<lparr>Pod = pod_b\<rparr>, \<lparr>Pod = pod_ds\<rparr>, \<lparr>Pod = pod_c\<rparr>]\<rparr>
        (example_options (Some example_rules)) () None 0
      = ([pod_b], [pod_ds], Some \<lparr>blocking_Pod = pod_c, Reason = NotReplicated\<rparr>,
         Some ''c is not replicated'')
   \<and> GetPodsToMove example_DefaultRules example_IsDaemonSetPod legacy_not_replicated
        \<lparr>Pods = [\<lparr>Pod = pod_b\<rparr>, \<lparr>Pod = pod_ds\<rparr>, \<lparr>Pod = pod_a\<rparr>]\<rparr>
        (example_options (Some example_rules)) () None 0
      = ([], [], Some \<lparr>blocking_Pod = pod_a, Reason = NotEnoughPdb\<rparr>,
         Some ''not enough pod disruption budget to move default/a'')"
  by (simp add: GetPodsToMove_def example_node_defs example_defs Let_def)




end
